theory Spec2Isabelle
  imports Complex_Main "HOL-Library.AList" "HOL-Library.Sublist" "HOL-Library.Multiset"
    "HOL-Library.Product_Lexorder"
begin

section \<open>Strings and numbers of the service\<close>

text \<open>
  A Python \<open>str\<close> is a sequence of Unicode code points, so it is modelled as a list of
  code points. Literals of the source are written with \<open>lit\<close>; the two non-ASCII
  characters of the source texts (U+2019 and U+2013) are given by their code points.
\<close>

type_synonym pystr = "nat list"

definition lit :: "string \<Rightarrow> pystr" where
  "lit cs = map of_char cs"

definition rsquo :: pystr where
  "rsquo = [8217]"

definition ndash :: pystr where
  "ndash = [8211]"

definition newline :: nat where
  "newline = 10"

text \<open>The characters removed by \<open>str.strip()\<close>: those for which \<open>str.isspace\<close> holds.\<close>

definition isspace :: "nat \<Rightarrow> bool" where
  "isspace c \<longleftrightarrow>
     (9 \<le> c \<and> c \<le> 13) \<or> (28 \<le> c \<and> c \<le> 32) \<or> c = 133 \<or> c = 160 \<or> c = 5760 \<or>
     (8192 \<le> c \<and> c \<le> 8202) \<or> c = 8232 \<or> c = 8233 \<or> c = 8239 \<or> c = 8287 \<or> c = 12288"

definition strip :: "pystr \<Rightarrow> pystr" where
  "strip s = rev (dropWhile isspace (rev (dropWhile isspace s)))"

definition startswith :: "pystr \<Rightarrow> pystr \<Rightarrow> bool" where
  "startswith s p \<longleftrightarrow> take (length p) s = p"

fun join :: "pystr \<Rightarrow> pystr list \<Rightarrow> pystr" where
  "join sep [] = []"
| "join sep [x] = x"
| "join sep (x # y # ys) = x @ sep @ join sep (y # ys)"

text \<open>
  The numbers of the source are Python floats. They are modelled as rationals with
  exact arithmetic; \<open>round(x, 2)\<close> and the format \<open>.0f\<close> both round to the nearest value,
  a tie going to the even neighbour.
\<close>

definition round_half_even :: "rat \<Rightarrow> int" where
  "round_half_even x =
     (let f = \<lfloor>x\<rfloor>; d = x - of_int f
      in if d < 1 / 2 then f else if 1 / 2 < d then f + 1 else if even f then f else f + 1)"

definition round2 :: "rat \<Rightarrow> rat" where
  "round2 x = of_int (round_half_even (x * 100)) / 100"

fun digits :: "nat \<Rightarrow> pystr" where
  "digits n = (if n < 10 then [48 + n] else digits (n div 10) @ [48 + n mod 10])"

declare digits.simps [simp del]

text \<open>The thousands separator of the format \<open>,\<close>: a comma before every group of three digits.\<close>

fun group3 :: "pystr \<Rightarrow> pystr" where
  "group3 ds =
     (if length ds \<le> 3 then ds
      else group3 (take (length ds - 3) ds) @ [44] @ drop (length ds - 3) ds)"

declare group3.simps [simp del]

definition format_money :: "rat \<Rightarrow> pystr" where
  "format_money v =
     (if v < 0 then [45] else []) @ group3 (digits (nat \<bar>round_half_even v\<bar>))"

section \<open>Data model\<close>

text \<open>
  The documents are dictionaries read with \<open>.get\<close>: a field is \<open>None\<close> when its key is
  absent (for \<open>sector\<close> also when the stored value is \<open>None\<close>).
\<close>

record 'n holding =
  symbol :: "pystr option"
  quantity :: "'n option"
  avg_cost :: "'n option"
  sector :: "pystr option"

record 'n portfolio =
  holdings :: "'n holding list option"

record user =
  risk_tolerance :: "pystr option"
  goals :: "pystr list option"

record 'n top_position =
  position_symbol :: "pystr option"
  weight :: 'n

record 'n summary =
  estimated_value :: 'n
  sector_allocation :: "(pystr \<times> 'n) list"
  top_positions :: "'n top_position list"
  holdings_count :: nat

section \<open>Portfolio Summarizer\<close>

definition get0 :: "rat option \<Rightarrow> rat" where
  "get0 x = (case x of None \<Rightarrow> 0 | Some v \<Rightarrow> v)"

definition cost :: "rat holding \<Rightarrow> rat" where
  "cost h = get0 (avg_cost h) * get0 (quantity h)"

definition cost_sum :: "rat holding list \<Rightarrow> rat" where
  "cost_sum hs = sum_list (map cost hs)"

definition total_cost :: "rat holding list \<Rightarrow> rat" where
  "total_cost hs = (if cost_sum hs = 0 then 1 else cost_sum hs)"

definition sector_key :: "'n holding \<Rightarrow> pystr" where
  "sector_key h = (case sector h of None \<Rightarrow> lit ''Other'' | Some s \<Rightarrow> if s = [] then lit ''Other'' else s)"

text \<open>The dictionary \<open>by_sector\<close> keeps its keys in insertion order.\<close>

definition add_holding :: "(pystr \<times> rat) list \<Rightarrow> rat holding \<Rightarrow> (pystr \<times> rat) list" where
  "add_holding d h = AList.update (sector_key h) (get0 (map_of d (sector_key h)) + cost h) d"

definition by_sector :: "rat holding list \<Rightarrow> (pystr \<times> rat) list" where
  "by_sector hs = foldl add_holding [] hs"

definition sector_alloc :: "rat holding list \<Rightarrow> (pystr \<times> rat) list" where
  "sector_alloc hs = map (\<lambda>(k, v). (k, round2 (v / total_cost hs * 100))) (by_sector hs)"

definition position :: "rat \<Rightarrow> rat holding \<Rightarrow> rat top_position" where
  "position t h = \<lparr>position_symbol = symbol h, weight = round2 (cost h / t * 100)\<rparr>"

text \<open>
  \<open>sorted(..., key=..., reverse=True)\<close>: the list is reversed, sorted by a stable
  ascending sort, and reversed again, so equal keys keep their input order.
\<close>

definition sorted_reverse :: "('a \<Rightarrow> rat) \<Rightarrow> 'a list \<Rightarrow> 'a list" where
  "sorted_reverse key xs = rev (sort_key key (rev xs))"

definition summarize_holdings :: "rat holding list \<Rightarrow> rat summary" where
  "summarize_holdings hs =
     \<lparr>estimated_value = round2 (total_cost hs),
      sector_allocation = sector_alloc hs,
      top_positions = take 5 (sorted_reverse weight (map (position (total_cost hs)) hs)),
      holdings_count = length hs\<rparr>"

definition summarize_portfolio :: "rat portfolio \<Rightarrow> rat summary" where
  "summarize_portfolio p = summarize_holdings (case holdings p of None \<Rightarrow> [] | Some hs \<Rightarrow> hs)"

section \<open>Heuristic Advisor\<close>

definition header_line :: "rat \<Rightarrow> pystr" where
  "header_line v =
     lit ''Here'' @ rsquo @ lit ''s a quick, personalized checkup on your portfolio (~$''
       @ format_money v @ lit '').''"

definition diversify_more :: pystr where
  "diversify_more = lit ''- Consider adding exposure to more sectors to reduce concentration risk.''"

definition diversified_ok :: pystr where
  "diversified_ok = lit ''- Sector mix looks reasonably diversified. Keep monitoring exposures.''"

definition trim_largest :: pystr where
  "trim_largest =
     lit ''- Your largest position is above 25% of portfolio. Gradual trimming may reduce idiosyncratic risk.''"

definition risk_conservative :: pystr where
  "risk_conservative =
     lit ''- Favor high-quality bonds, broad-market ETFs, and larger cash buffer (6'' @ ndash
       @ lit ''12 months expenses).''"

definition risk_balanced :: pystr where
  "risk_balanced =
     lit ''- A mix of equities and bonds (e.g., 60/40) with periodic rebalancing can fit your profile.''"

definition risk_aggressive :: pystr where
  "risk_aggressive =
     lit ''- Tilt toward equities/alternatives with disciplined DCA and volatility management.''"

definition risk_line :: "pystr \<Rightarrow> pystr" where
  "risk_line risk =
     (if risk = lit ''conservative'' then risk_conservative
      else if risk = lit ''balanced'' then risk_balanced
      else risk_aggressive)"

definition heuristic_lines :: "user \<Rightarrow> rat portfolio \<Rightarrow> pystr list" where
  "heuristic_lines u p =
     (let risk = (case risk_tolerance u of None \<Rightarrow> lit ''balanced'' | Some r \<Rightarrow> r);
          s = summarize_portfolio p
      in [header_line (estimated_value s), lit ''Diversification:'']
         @ [if length (sector_allocation s) < 4 then diversify_more else diversified_ok]
         @ (case top_positions s of
              [] \<Rightarrow> []
            | t # _ \<Rightarrow> if 25 < weight t then [trim_largest] else [])
         @ [lit ''Risk alignment:'']
         @ [risk_line risk]
         @ [lit ''Next steps:'',
            lit ''- Set an automatic monthly investment and rebalance quarterly.'',
            lit ''- Map each goal to a time horizon and choose suitable vehicles (401k/IRA/taxable).''])"

definition heuristic_advice :: "user \<Rightarrow> rat portfolio \<Rightarrow> pystr" where
  "heuristic_advice u p = join [newline] (heuristic_lines u p)"

section \<open>Language-Model Client\<close>

text \<open>A decoded JSON value; an object keeps its members, whose keys are distinct, as an
  association list.\<close>

datatype json =
  JNull | JBool bool | JNum rat | JStr pystr | JList "json list" | JDict "(pystr \<times> json) list"

text \<open>Python truthiness, as used by \<open>not x\<close> and \<open>x or y\<close>.\<close>

fun truthy :: "json \<Rightarrow> bool" where
  "truthy JNull = False"
| "truthy (JBool b) = b"
| "truthy (JNum r) = (r \<noteq> 0)"
| "truthy (JStr s) = (s \<noteq> [])"
| "truthy (JList xs) = (xs \<noteq> [])"
| "truthy (JDict kvs) = (kvs \<noteq> [])"

record request =
  url :: pystr
  authorization :: pystr
  inputs :: pystr
  max_new_tokens :: nat
  temperature :: rat
  timeout :: nat

text \<open>
  What the \<open>try\<close> block obtains from the network: \<open>Failed\<close> stands for every exception
  raised by the call, by \<open>raise_for_status\<close> or by the JSON decoder.
\<close>

datatype http_outcome = Failed | Body json

text \<open>
  The decoding of the response. When the first element of a list is not an object, the
  membership test or the subscript raises \<open>TypeError\<close>, or the test is false and the
  second check fails too: every such path ends in the empty string.
\<close>

fun hf_result :: "pystr \<Rightarrow> json \<Rightarrow> json" where
  "hf_result prompt (JList (JDict kvs # rest)) =
     (case map_of kvs (lit ''generated_text'') of
        None \<Rightarrow> JStr []
      | Some (JStr full) \<Rightarrow>
          if startswith full prompt then JStr (strip (drop (length prompt) full)) else JStr full
      | Some full \<Rightarrow> full)"
| "hf_result prompt (JList xs) = JStr []"
| "hf_result prompt (JDict kvs) =
     (case map_of kvs (lit ''generated_text'') of None \<Rightarrow> JStr [] | Some v \<Rightarrow> v)"
| "hf_result prompt data = JStr []"

text \<open>
  The world outside the service: the environment variables, the HTTP endpoint, the
  identifier parser (\<open>None\<close> when it raises), the two collections, and Python's
  rendering of the summary dictionary inside an f-string.
\<close>

record 'oid world =
  HF_API_TOKEN :: "pystr option"
  HF_CHAT_MODEL :: "pystr option"
  post :: "request \<Rightarrow> http_outcome"
  ObjectId :: "json \<Rightarrow> 'oid option"
  find_user :: "'oid \<Rightarrow> user option"
  find_portfolio :: "json \<Rightarrow> rat portfolio option"
  str_summary :: "rat summary \<Rightarrow> pystr"

text \<open>The client returns its text together with the list of requests it has sent.\<close>

definition hf_complete :: "'oid world \<Rightarrow> pystr \<Rightarrow> json \<times> request list" where
  "hf_complete w prompt =
     (case HF_API_TOKEN w of
        None \<Rightarrow> (JStr [], [])
      | Some token \<Rightarrow>
          if token = [] then (JStr [], [])
          else
            let model = (case HF_CHAT_MODEL w of
                           None \<Rightarrow> lit ''meta-llama/Llama-3.2-1B-Instruct''
                         | Some m \<Rightarrow> m);
                req = \<lparr>url = lit ''https://api-inference.huggingface.co/models/'' @ model,
                       authorization = lit ''Bearer '' @ token,
                       inputs = prompt,
                       max_new_tokens = 250,
                       temperature = 7 / 10,
                       timeout = 60\<rparr>
            in (case post w req of Failed \<Rightarrow> JStr [] | Body data \<Rightarrow> hf_result prompt data,
                [req]))"

section \<open>The two advisory operations\<close>

datatype error = HTTPException nat pystr | AttributeError

record analyze_response =
  response_summary :: "rat summary"
  advice :: json

record chat_message =
  user_id :: pystr
  message :: pystr

definition str_opt :: "pystr option \<Rightarrow> pystr" where
  "str_opt x = (case x of None \<Rightarrow> lit ''None'' | Some s \<Rightarrow> s)"

definition goals_text :: "user \<Rightarrow> pystr" where
  "goals_text u = join (lit '', '') (case goals u of None \<Rightarrow> [] | Some gs \<Rightarrow> gs)"

definition sys_prompt :: "'oid world \<Rightarrow> user \<Rightarrow> rat summary \<Rightarrow> pystr" where
  "sys_prompt w u s =
     lit ''You are a helpful, compliant financial robo-advisor. ''
     @ lit ''Speak clearly and concisely. Avoid guaranteeing returns. '' @ [newline, newline]
     @ lit ''User risk tolerance: '' @ str_opt (risk_tolerance u) @ [newline]
     @ lit ''Goals: '' @ goals_text u @ [newline]
     @ lit ''Portfolio summary: '' @ str_summary w s @ [newline, newline]
     @ lit ''Provide a brief recommendation in 5-7 bullet points.''"

definition analyze :: "'oid world \<Rightarrow> (pystr \<times> json) list \<Rightarrow> error + analyze_response" where
  "analyze w payload =
     (case map_of payload (lit ''user_id'') of
        None \<Rightarrow> Inl (HTTPException 400 (lit ''user_id is required''))
      | Some uid \<Rightarrow>
          if \<not> truthy uid then Inl (HTTPException 400 (lit ''user_id is required''))
          else case ObjectId w uid of
            None \<Rightarrow> Inl (HTTPException 400 (lit ''invalid user_id''))
          | Some obj_id \<Rightarrow>
              (case find_user w obj_id of
                 None \<Rightarrow> Inl (HTTPException 404 (lit ''user not found''))
               | Some user_doc \<Rightarrow>
                   (case find_portfolio w uid of
                      None \<Rightarrow> Inl (HTTPException 404 (lit ''portfolio not found''))
                    | Some portfolio_doc \<Rightarrow>
                        let s = summarize_portfolio portfolio_doc;
                            heuristic = heuristic_advice user_doc portfolio_doc;
                            ai_text = fst (hf_complete w (sys_prompt w user_doc s));
                            advice_text = (if truthy ai_text then ai_text else JStr heuristic)
                        in Inr \<lparr>response_summary = s, advice = advice_text\<rparr>)))"

definition chat_system :: pystr where
  "chat_system =
     lit ''You are an AI robo-advisor. Use simple language, include disclaimers, ''
     @ lit ''and tailor guidance to risk tolerance.''"

definition chat_prompt :: "'oid world \<Rightarrow> user \<Rightarrow> rat summary \<Rightarrow> pystr \<Rightarrow> pystr" where
  "chat_prompt w u s m =
     chat_system @ [newline, newline] @ lit ''Risk: '' @ str_opt (risk_tolerance u) @ [newline]
     @ lit ''Goals: '' @ goals_text u @ [newline]
     @ lit ''Portfolio: '' @ str_summary w s @ [newline, newline]
     @ lit ''User: '' @ m @ [newline] @ lit ''Assistant:''"

definition chat_fallback :: pystr where
  "chat_fallback =
     lit ''Based on your profile, focus on staying diversified, rebalancing on a set schedule, ''
     @ lit ''and sizing positions according to your risk tolerance. Consider tax-advantaged accounts ''
     @ lit ''for long-term goals. I'' @ rsquo @ lit ''m not a financial advisor; this is educational information.''"

text \<open>
  In \<open>chat\<close> the user document is not checked: building the prompt calls \<open>.get\<close> on it,
  which raises \<open>AttributeError\<close> when no user was found. The result is the value of
  \<open>reply\<close>.
\<close>

definition chat :: "'oid world \<Rightarrow> chat_message \<Rightarrow> error + json" where
  "chat w msg =
     (case ObjectId w (JStr (user_id msg)) of
        None \<Rightarrow> Inl (HTTPException 400 (lit ''invalid user_id''))
      | Some obj_id \<Rightarrow>
          let portfolio_doc = (case find_portfolio w (JStr (user_id msg)) of
                                 None \<Rightarrow> \<lparr>holdings = Some []\<rparr>
                               | Some p \<Rightarrow> p);
              s = summarize_portfolio portfolio_doc
          in case find_user w obj_id of
               None \<Rightarrow> Inl AttributeError
             | Some user_doc \<Rightarrow>
                 let ai_text = fst (hf_complete w (chat_prompt w user_doc s (message msg)))
                 in Inr (if truthy ai_text then ai_text else JStr chat_fallback))"

section \<open>Reading the advice back\<close>

text \<open>The paragraphs of a text: its pieces between line breaks, as \<open>str.split\<close> gives them.\<close>

fun split_on :: "nat \<Rightarrow> pystr \<Rightarrow> pystr list" where
  "split_on c [] = [[]]"
| "split_on c (x # xs) =
     (if x = c then [] # split_on c xs
      else case split_on c xs of [] \<Rightarrow> [[x]] | l # ls \<Rightarrow> (x # l) # ls)"

text \<open>The three paragraphs of the risk-alignment block.\<close>

definition is_risk_paragraph :: "pystr \<Rightarrow> bool" where
  "is_risk_paragraph l \<longleftrightarrow> l \<in> {risk_conservative, risk_balanced, risk_aggressive}"

section \<open>Example inputs\<close>

definition aapl :: "rat holding" where
  "aapl = \<lparr>symbol = Some (lit ''AAPL''), quantity = Some 10, avg_cost = Some 150,
            sector = Some (lit ''Tech'')\<rparr>"

definition bnd :: "rat holding" where
  "bnd = \<lparr>symbol = Some (lit ''BND''), quantity = Some 20, avg_cost = Some 50,
           sector = Some (lit ''Bonds'')\<rparr>"

definition stock :: "string \<Rightarrow> rat \<Rightarrow> rat \<Rightarrow> rat holding" where
  "stock name q c =
     \<lparr>symbol = Some (lit name), quantity = Some q, avg_cost = Some c, sector = None\<rparr>"

definition six_holdings :: "rat holding list" where
  "six_holdings =
     [stock ''A'' 1 10, stock ''B'' 1 30, stock ''C'' 1 10, stock ''D'' 2 10,
      stock ''E'' 1 5, stock ''F'' 1 25]"


definition demo_user :: user where
  "demo_user =
     \<lparr>risk_tolerance = Some (lit ''conservative''), goals = Some [lit ''retire'', lit ''house'']\<rparr>"

definition demo_portfolio :: "rat portfolio" where
  "demo_portfolio = \<lparr>holdings = Some [aapl, bnd]\<rparr>"

definition demo_id :: pystr where
  "demo_id = lit ''0123456789abcdef01234567''"

text \<open>An identifier parser for the examples: it accepts a string of 24 hexadecimal digits.\<close>

definition ishex :: "nat \<Rightarrow> bool" where
  "ishex c \<longleftrightarrow> (48 \<le> c \<and> c \<le> 57) \<or> (65 \<le> c \<and> c \<le> 70) \<or> (97 \<le> c \<and> c \<le> 102)"

fun demo_ObjectId :: "json \<Rightarrow> pystr option" where
  "demo_ObjectId (JStr s) = (if length s = 24 \<and> list_all ishex s then Some s else None)"
| "demo_ObjectId j = None"

definition demo_world :: "pystr option \<Rightarrow> (request \<Rightarrow> http_outcome) \<Rightarrow> bool \<Rightarrow> pystr world" where
  "demo_world token net has_user =
     \<lparr>HF_API_TOKEN = token, HF_CHAT_MODEL = None, post = net, ObjectId = demo_ObjectId,
      find_user = (\<lambda>i. if has_user \<and> i = demo_id then Some demo_user else None),
      find_portfolio = (\<lambda>j. if j = JStr demo_id then Some demo_portfolio else None),
      str_summary = (\<lambda>s. lit ''{}'')\<rparr>"

definition demo_msg :: chat_message where
  "demo_msg = \<lparr>user_id = demo_id, message = lit ''Hello''\<rparr>"

definition echo_dict :: "request \<Rightarrow> http_outcome" where
  "echo_dict r = Body (JDict [(lit ''generated_text'', JStr (inputs r @ lit '' there''))])"

definition echo_list :: "request \<Rightarrow> http_outcome" where
  "echo_list r = Body (JList [JDict [(lit ''generated_text'', JStr (inputs r @ lit '' there''))]])"

definition net_down :: "request \<Rightarrow> http_outcome" where
  "net_down r = Failed"

definition demo_payload :: "(pystr \<times> json) list" where
  "demo_payload = [(lit ''user_id'', JStr demo_id)]"

section \<open>Rounding\<close>


section \<open>Lines of the advice\<close>

lemma split_on_no_sep: "c \<notin> set l \<Longrightarrow> split_on c l = [l]"
  by (induction l) auto

lemma split_on_append: "c \<notin> set l \<Longrightarrow> split_on c (l @ c # rest) = l # split_on c rest"
  by (induction l) auto

lemma split_on_join:
  "ls \<noteq> [] \<Longrightarrow> \<forall>l \<in> set ls. c \<notin> set l \<Longrightarrow> split_on c (join [c] ls) = ls"
proof (induction "[c]" ls rule: join.induct)
  case 1
  then show ?case by simp
next
  case (2 x)
  then show ?case by (simp add: split_on_no_sep)
next
  case (3 x y ys)
  then show ?case by (simp add: split_on_append)
qed

lemma digits_range: "set (digits n) \<subseteq> {48..57}"
proof (induction n rule: digits.induct)
  case (1 n)
  show ?case
  proof (cases "n < 10")
    case True
    then show ?thesis by (subst digits.simps) simp
  next
    case False
    have "n mod 10 < 10" by simp
    then have "48 + n mod 10 \<in> {48..57}" by simp
    with 1 False show ?thesis by (subst digits.simps) simp
  qed
qed

lemma group3_chars: "set (group3 ds) \<subseteq> insert 44 (set ds)"
proof (induction ds rule: group3.induct)
  case (1 ds)
  show ?case
  proof (cases "length ds \<le> 3")
    case True
    then show ?thesis by (subst group3.simps) auto
  next
    case False
    with 1 have ih: "set (group3 (take (length ds - 3) ds)) \<subseteq> insert 44 (set (take (length ds - 3) ds))"
      by simp
    have "set (take (length ds - 3) ds) \<subseteq> set ds" "set (drop (length ds - 3) ds) \<subseteq> set ds"
      by (rule set_take_subset, rule set_drop_subset)
    with ih False show ?thesis by (subst group3.simps) auto
  qed
qed

lemma format_money_no_newline: "newline \<notin> set (format_money v)"
proof -
  have "set (group3 (digits n)) \<subseteq> insert 44 {48..57}" for n
    using group3_chars [of "digits n"] digits_range [of n] by blast
  moreover have "newline \<notin> insert 44 {48..57}"
    by (simp add: newline_def)
  ultimately have "newline \<notin> set (group3 (digits n))" for n
    by blast
  then show ?thesis
    by (simp add: format_money_def newline_def)
qed

lemma header_line_no_newline: "newline \<notin> set (header_line v)"
  using format_money_no_newline [of v]
  by (simp add: header_line_def lit_def rsquo_def newline_def)

lemma fixed_lines_no_newline:
  "newline \<notin> set diversify_more" "newline \<notin> set diversified_ok" "newline \<notin> set trim_largest"
  "newline \<notin> set risk_conservative" "newline \<notin> set risk_balanced"
  "newline \<notin> set risk_aggressive"
  by (simp_all add: diversify_more_def diversified_ok_def trim_largest_def risk_conservative_def
      risk_balanced_def risk_aggressive_def lit_def ndash_def newline_def)

lemma risk_line_no_newline: "newline \<notin> set (risk_line r)"
  by (simp add: risk_line_def fixed_lines_no_newline)

lemma heuristic_lines_no_newline: "\<forall>l \<in> set (heuristic_lines u p). newline \<notin> set l"
proof -
  have titles: "newline \<notin> set (lit ''Diversification:'')" "newline \<notin> set (lit ''Risk alignment:'')"
    "newline \<notin> set (lit ''Next steps:'')"
    "newline \<notin> set (lit ''- Set an automatic monthly investment and rebalance quarterly.'')"
    "newline \<notin> set (lit ''- Map each goal to a time horizon and choose suitable vehicles (401k/IRA/taxable).'')"
    by (simp_all add: lit_def newline_def)
  show ?thesis
    unfolding heuristic_lines_def Let_def
    by (auto simp: titles header_line_no_newline fixed_lines_no_newline risk_line_no_newline
        split: list.split)
qed

lemma heuristic_lines_nonempty: "heuristic_lines u p \<noteq> []"
  by (simp add: heuristic_lines_def Let_def)

lemma split_heuristic_advice: "split_on newline (heuristic_advice u p) = heuristic_lines u p"
  unfolding heuristic_advice_def
  using heuristic_lines_nonempty heuristic_lines_no_newline by (rule split_on_join)

lemma risk_paragraph_heads:
  "risk_conservative = 45 # 32 # 70 # drop 3 risk_conservative"
  "risk_balanced = 45 # 32 # 65 # drop 3 risk_balanced"
  "risk_aggressive = 45 # 32 # 84 # drop 3 risk_aggressive"
  by (simp_all add: risk_conservative_def risk_balanced_def risk_aggressive_def lit_def)

lemma risk_paragraph_chars:
  "risk_conservative ! 2 = 70" "risk_balanced ! 2 = 65" "risk_aggressive ! 2 = 84"
  "risk_conservative ! 0 = 45" "risk_balanced ! 0 = 45" "risk_aggressive ! 0 = 45"
  by (subst risk_paragraph_heads, simp)+

lemma risk_paragraphs_distinct: "distinct [risk_conservative, risk_balanced, risk_aggressive]"
  using risk_paragraph_chars(1-3) by auto

lemma is_risk_paragraph_third: "is_risk_paragraph l \<Longrightarrow> l ! 2 \<in> {70, 65, 84} \<and> l ! 0 = 45"
  unfolding is_risk_paragraph_def
  using risk_paragraph_chars by auto

lemma other_lines_not_risk:
  "\<not> is_risk_paragraph (header_line v)"
  "\<not> is_risk_paragraph (lit ''Diversification:'')"
  "\<not> is_risk_paragraph diversify_more"
  "\<not> is_risk_paragraph diversified_ok"
  "\<not> is_risk_paragraph trim_largest"
  "\<not> is_risk_paragraph (lit ''Risk alignment:'')"
  "\<not> is_risk_paragraph (lit ''Next steps:'')"
  "\<not> is_risk_paragraph (lit ''- Set an automatic monthly investment and rebalance quarterly.'')"
  "\<not> is_risk_paragraph (lit ''- Map each goal to a time horizon and choose suitable vehicles (401k/IRA/taxable).'')"
  by (rule notI, drule is_risk_paragraph_third,
      simp add: header_line_def diversify_more_def diversified_ok_def trim_largest_def lit_def)+

lemma risk_line_is_risk: "is_risk_paragraph (risk_line r)"
  by (simp add: is_risk_paragraph_def risk_line_def)

lemma filter_heuristic_lines:
  "filter is_risk_paragraph (heuristic_lines u p)
     = [risk_line (case risk_tolerance u of None \<Rightarrow> lit ''balanced'' | Some r \<Rightarrow> r)]"
  unfolding heuristic_lines_def Let_def
  by (simp add: other_lines_not_risk risk_line_is_risk split: list.split)

section \<open>The two fallback texts\<close>

lemma hd_heuristic_advice: "hd (heuristic_advice u p) = 72"
  by (simp add: heuristic_advice_def heuristic_lines_def Let_def header_line_def lit_def)

lemma hd_chat_fallback: "hd chat_fallback = 66"
  by (simp add: chat_fallback_def lit_def)

lemma chat_fallback_not_heuristic: "chat_fallback \<noteq> heuristic_advice u p"
proof
  assume "chat_fallback = heuristic_advice u p"
  then have "hd chat_fallback = hd (heuristic_advice u p)" by simp
  then show False by (simp add: hd_heuristic_advice hd_chat_fallback)
qed

lemma analyze_falls_back:
  assumes "map_of payload (lit ''user_id'') = Some uid" "truthy uid" "ObjectId w uid = Some oid"
    "find_user w oid = Some u" "find_portfolio w uid = Some p"
    "\<not> truthy (fst (hf_complete w (sys_prompt w u (summarize_portfolio p))))"
  shows "analyze w payload =
           Inr \<lparr>response_summary = summarize_portfolio p, advice = JStr (heuristic_advice u p)\<rparr>"
  using assms by (simp add: analyze_def Let_def)

lemma chat_falls_back:
  assumes "ObjectId w (JStr (user_id msg)) = Some oid" "find_user w oid = Some u"
    "\<not> truthy (fst (hf_complete w (chat_prompt w u
         (summarize_portfolio (case find_portfolio w (JStr (user_id msg)) of
                                 None \<Rightarrow> \<lparr>holdings = Some []\<rparr> | Some q \<Rightarrow> q))
         (message msg))))"
  shows "chat w msg = Inr (JStr chat_fallback)"
  using assms by (simp add: chat_def Let_def)

lemma hf_complete_net_down:
  "post w = net_down \<Longrightarrow> \<not> truthy (fst (hf_complete w prompt))"
  by (simp add: hf_complete_def net_down_def Let_def split: option.split)

lemma demo_world_fields:
  "ObjectId (demo_world t n b) (JStr demo_id) = Some demo_id"
  "find_user (demo_world t n True) demo_id = Some demo_user"
  "find_portfolio (demo_world t n b) (JStr demo_id) = Some demo_portfolio"
  "post (demo_world t n b) = n"
  by (simp_all add: demo_world_def demo_id_def lit_def ishex_def)

section \<open>Claims about the Summarizer\<close>

text \<open>
  Claim C8. For the empty holdings list the Summarizer returns \<open>holdings_count = 0\<close>, an
  empty \<open>sector_allocation\<close> and an empty \<open>top_positions\<close> list. The same holds when the
  portfolio document has no \<open>holdings\<close> key, which the source reads as the empty list.
\<close>

theorem C8_empty_holdings:
  "holdings_count (summarize_portfolio \<lparr>holdings = Some []\<rparr>) = 0
   \<and> sector_allocation (summarize_portfolio \<lparr>holdings = Some []\<rparr>) = []
   \<and> top_positions (summarize_portfolio \<lparr>holdings = Some []\<rparr>) = []
   \<and> summarize_portfolio \<lparr>holdings = None\<rparr> = summarize_portfolio \<lparr>holdings = Some []\<rparr>"
  by (simp add: summarize_portfolio_def summarize_holdings_def sector_alloc_def by_sector_def
      sorted_reverse_def)



section \<open>Claims about the Heuristic Advisor\<close>

text \<open>
  Claim C6. For every user and portfolio, the advice text contains exactly one
  risk-alignment paragraph: among its lines, exactly one is one of the three
  paragraphs, and it is the bonds and cash-buffer paragraph when \<open>risk_tolerance\<close> is
  "conservative", the 60/40 paragraph when it is "balanced" (the default of a user
  document without the key), and the equities and alternatives paragraph for every
  other value. The three paragraphs are different texts.
\<close>

theorem C6_one_risk_paragraph:
  "filter (\<lambda>l. l \<in> {risk_conservative, risk_balanced, risk_aggressive})
      (split_on newline (heuristic_advice u p))
     = [case risk_tolerance u of
          None \<Rightarrow> risk_balanced
        | Some r \<Rightarrow> if r = lit ''conservative'' then risk_conservative
                    else if r = lit ''balanced'' then risk_balanced
                    else risk_aggressive]
   \<and> distinct [risk_conservative, risk_balanced, risk_aggressive]"
proof -
  have eq: "is_risk_paragraph = (\<lambda>l. l \<in> {risk_conservative, risk_balanced, risk_aggressive})"
    by (rule ext) (simp only: is_risk_paragraph_def)
  have "filter (\<lambda>l. l \<in> {risk_conservative, risk_balanced, risk_aggressive})
          (split_on newline (heuristic_advice u p))
        = filter is_risk_paragraph (heuristic_lines u p)"
    by (simp only: split_heuristic_advice eq)
  also have "\<dots> = [risk_line (case risk_tolerance u of None \<Rightarrow> lit ''balanced'' | Some r \<Rightarrow> r)]"
    by (rule filter_heuristic_lines)
  also have "\<dots> = [case risk_tolerance u of
          None \<Rightarrow> risk_balanced
        | Some r \<Rightarrow> if r = lit ''conservative'' then risk_conservative
                    else if r = lit ''balanced'' then risk_balanced
                    else risk_aggressive]"
    by (simp add: risk_line_def lit_def split: option.split)
  finally show ?thesis
    using risk_paragraphs_distinct by (rule conjI)
qed

section \<open>Claims about the Language-Model Client\<close>

text \<open>
  Claim C9. For every prompt, when no credential is configured in the environment, the
  client returns the empty string, whatever the prompt, and sends no request.
\<close>

theorem C9_no_credential:
  "HF_API_TOKEN w = None \<Longrightarrow> hf_complete w prompt = (JStr [], [])"
  by (simp add: hf_complete_def)

theorem C9_no_credential_witness:
  "HF_API_TOKEN (demo_world None echo_list True) = None
   \<and> hf_complete (demo_world None echo_list True) (lit ''Hello'') = (JStr [], [])"
proof -
  have none: "HF_API_TOKEN (demo_world None echo_list True) = None"
    by (simp add: demo_world_def)
  from none C9_no_credential [OF none] show ?thesis by (rule conjI)
qed

text \<open>
  Claim C5, at the input where the code departs from it. The prompt is "Hi" and the
  endpoint answers with the prompt followed by " there". When the answer is a single
  object with \<open>generated_text\<close>, the client returns the text with the prompt still in
  front; when the answer is a list holding that object, the prompt is stripped.
\<close>

theorem C5_dict_shape_keeps_prompt:
  "fst (hf_complete (demo_world (Some (lit ''tok'')) echo_dict True) (lit ''Hi''))
     = JStr (lit ''Hi there'')
   \<and> fst (hf_complete (demo_world (Some (lit ''tok'')) echo_list True) (lit ''Hi''))
     = JStr (lit ''there'')"
  by (simp add: hf_complete_def demo_world_def echo_dict_def echo_list_def lit_def Let_def
      startswith_def strip_def isspace_def)

section \<open>Claims about the advisory operations\<close>

text \<open>
  Claim C4, at the input where the code departs from it. The chat request carries a
  well-formed identifier, a portfolio is stored for it, and no user is: the operation
  ends in an unhandled \<open>AttributeError\<close> instead of a reply.
\<close>

theorem C4_chat_without_user:
  "ObjectId (demo_world None net_down False) (JStr (user_id demo_msg)) = Some demo_id
   \<and> find_user (demo_world None net_down False) demo_id = None
   \<and> chat (demo_world None net_down False) demo_msg = Inl AttributeError"
  by (simp add: chat_def demo_world_def demo_msg_def demo_id_def lit_def ishex_def Let_def)

text \<open>
  Claim C3, as stated, fails for the chat flow: with a stored user and portfolio and an
  endpoint that cannot be reached, the client yields no text, and the reply is not the
  Heuristic Advisor's result for that user and portfolio.
\<close>

theorem C3_chat_counterexample:
  "find_user (demo_world (Some (lit ''tok'')) net_down True) demo_id = Some demo_user
   \<and> find_portfolio (demo_world (Some (lit ''tok'')) net_down True) (JStr (user_id demo_msg))
       = Some demo_portfolio
   \<and> \<not> truthy (fst (hf_complete (demo_world (Some (lit ''tok'')) net_down True)
         (chat_prompt (demo_world (Some (lit ''tok'')) net_down True) demo_user
            (summarize_portfolio demo_portfolio) (message demo_msg))))
   \<and> chat (demo_world (Some (lit ''tok'')) net_down True) demo_msg
       \<noteq> Inr (JStr (heuristic_advice demo_user demo_portfolio))"
proof -
  let ?w = "demo_world (Some (lit ''tok'')) net_down True"
  have uid: "user_id demo_msg = demo_id"
    by (simp add: demo_msg_def)
  have silent: "\<not> truthy (fst (hf_complete ?w prompt))" for prompt
    by (rule hf_complete_net_down) (rule demo_world_fields)
  have "chat ?w demo_msg = Inr (JStr chat_fallback)"
    by (rule chat_falls_back [where oid = demo_id and u = demo_user])
       (simp_all only: uid demo_world_fields silent not_False_eq_True)
  then have "chat ?w demo_msg \<noteq> Inr (JStr (heuristic_advice demo_user demo_portfolio))"
    by (simp add: chat_fallback_not_heuristic)
  with silent show ?thesis
    by (simp only: uid demo_world_fields) simp
qed

text \<open>
  Claim C3, amended. In the analyze flow, whenever the client yields no usable text, the
  advice returned is the Heuristic Advisor's result for that user and portfolio. In the
  chat flow, for a stored user, whenever the client yields no usable text, the reply is
  one fixed educational text, which is never the Heuristic Advisor's result.
\<close>

theorem C3_fallback_texts:
  "(map_of payload (lit ''user_id'') = Some uid \<and> truthy uid \<and> ObjectId w uid = Some oid
      \<and> find_user w oid = Some u \<and> find_portfolio w uid = Some p
      \<and> \<not> truthy (fst (hf_complete w (sys_prompt w u (summarize_portfolio p))))
    \<longrightarrow> analyze w payload =
          Inr \<lparr>response_summary = summarize_portfolio p, advice = JStr (heuristic_advice u p)\<rparr>)
   \<and> (ObjectId w (JStr (user_id msg)) = Some oid' \<and> find_user w oid' = Some u'
      \<and> \<not> truthy (fst (hf_complete w (chat_prompt w u'
            (summarize_portfolio (case find_portfolio w (JStr (user_id msg)) of
                                    None \<Rightarrow> \<lparr>holdings = Some []\<rparr> | Some q \<Rightarrow> q))
            (message msg))))
    \<longrightarrow> chat w msg = Inr (JStr chat_fallback))
   \<and> chat_fallback \<noteq> heuristic_advice u'' p''"
  using analyze_falls_back [of payload uid w oid u p] chat_falls_back [of w msg oid' u']
    chat_fallback_not_heuristic [of u'' p'']
  by blast

theorem C3_fallback_texts_witness:
  "analyze (demo_world (Some (lit ''tok'')) net_down True) demo_payload =
     Inr \<lparr>response_summary = summarize_portfolio demo_portfolio,
          advice = JStr (heuristic_advice demo_user demo_portfolio)\<rparr>
   \<and> chat (demo_world (Some (lit ''tok'')) net_down True) demo_msg = Inr (JStr chat_fallback)
   \<and> chat_fallback \<noteq> heuristic_advice demo_user demo_portfolio"
proof -
  let ?w = "demo_world (Some (lit ''tok'')) net_down True"
  note c3 = C3_fallback_texts [of demo_payload "JStr demo_id" ?w demo_id demo_user demo_portfolio
      demo_msg demo_id demo_user demo_user demo_portfolio]
  have uid: "user_id demo_msg = demo_id"
    by (simp add: demo_msg_def)
  have silent: "\<not> truthy (fst (hf_complete ?w prompt))" for prompt
    by (rule hf_complete_net_down) (rule demo_world_fields)
  have payload: "map_of demo_payload (lit ''user_id'') = Some (JStr demo_id)"
    by (simp add: demo_payload_def)
  have given: "truthy (JStr demo_id)"
    by (simp add: demo_id_def lit_def)
  have a: "map_of demo_payload (lit ''user_id'') = Some (JStr demo_id) \<and> truthy (JStr demo_id)
      \<and> ObjectId ?w (JStr demo_id) = Some demo_id
      \<and> find_user ?w demo_id = Some demo_user \<and> find_portfolio ?w (JStr demo_id) = Some demo_portfolio
      \<and> \<not> truthy (fst (hf_complete ?w (sys_prompt ?w demo_user (summarize_portfolio demo_portfolio))))"
    by (intro conjI payload given demo_world_fields silent)
  have b: "ObjectId ?w (JStr (user_id demo_msg)) = Some demo_id \<and> find_user ?w demo_id = Some demo_user
      \<and> \<not> truthy (fst (hf_complete ?w (chat_prompt ?w demo_user
            (summarize_portfolio (case find_portfolio ?w (JStr (user_id demo_msg)) of
                                    None \<Rightarrow> \<lparr>holdings = Some []\<rparr> | Some q \<Rightarrow> q))
            (message demo_msg))))"
    unfolding uid by (intro conjI demo_world_fields silent)
  have r1: "analyze ?w demo_payload =
     Inr \<lparr>response_summary = summarize_portfolio demo_portfolio,
          advice = JStr (heuristic_advice demo_user demo_portfolio)\<rparr>"
    by (rule c3 [THEN conjunct1, THEN mp, OF a])
  have r2: "chat ?w demo_msg = Inr (JStr chat_fallback)"
    by (rule c3 [THEN conjunct2, THEN conjunct1, THEN mp, OF b])
  have r3: "chat_fallback \<noteq> heuristic_advice demo_user demo_portfolio"
    by (rule c3 [THEN conjunct2, THEN conjunct2])
  from r1 r2 r3 show ?thesis
    by (intro conjI)
qed

end
